theory Spec2Isabelle
  imports Complex_Main "HOL-Library.Sublist"
begin

section \<open>Python values used by the weather tool\<close>

text \<open>
  A Python \<open>str\<close> is a sequence of Unicode code points. Code points are natural numbers;
  ASCII literals of the source are written as HOL string literals and converted by \<open>ustr\<close>.
  The degree sign of the unit labels is the code point U+00B0.
\<close>

type_synonym codepoint = nat
type_synonym pystr = "codepoint list"

definition ustr :: "string \<Rightarrow> pystr" where
  "ustr s = map of_char s"

definition degree_sign :: codepoint where
  "degree_sign = 176"

definition apostrophe :: codepoint where
  "apostrophe = 39"

definition backslash :: codepoint where
  "backslash = 92"

text \<open>
  The values a session state may hold (strings and primitives). A Python \<open>float\<close> is
  represented by the rational number it stands for: the tool only ever computes
  \<open>temp_c * 9 / 5 + 32\<close> for the three integers of its table, where the doubles are
  \<open>77.0\<close>, \<open>59.0\<close> and the double next to \<open>64.4\<close>, and formats them with no decimals.
  Infinities, not-a-number and the negative zero have no counterpart here; the tool
  does not compute them, and a stored value is only compared with the string
  \<open>Fahrenheit\<close> and written to the log.
\<close>

datatype pyval = PNone | PBool bool | PInt int | PFloat rat | PStr pystr

datatype py_error = KeyError pystr | TypeError | ValueError | UnicodeEncodeError

type_synonym pydict = "pystr \<rightharpoonup> pyval"

text \<open>\<open>d.get(key, default)\<close>, \<open>key in d\<close> and the subscript \<open>d[key]\<close>, which raises \<open>KeyError\<close>.\<close>

definition dict_get :: "(pystr \<rightharpoonup> 'v) \<Rightarrow> pystr \<Rightarrow> 'v \<Rightarrow> 'v" where
  "dict_get d key dflt = (case d key of None \<Rightarrow> dflt | Some v \<Rightarrow> v)"

definition dict_contains :: "(pystr \<rightharpoonup> 'v) \<Rightarrow> pystr \<Rightarrow> bool" where
  "dict_contains d key = (d key \<noteq> None)"

definition getitem :: "(pystr \<rightharpoonup> 'v) \<Rightarrow> pystr \<Rightarrow> py_error + 'v" where
  "getitem d key = (case d key of None \<Rightarrow> Inl (KeyError key) | Some v \<Rightarrow> Inr v)"

text \<open>\<open>v == "..."\<close> against a string literal: a value that is not a \<open>str\<close> is never equal to it.\<close>

fun py_eq_str :: "pyval \<Rightarrow> pystr \<Rightarrow> bool" where
  "py_eq_str (PStr s) t = (s = t)"
| "py_eq_str _ t = False"

section \<open>The Python runtime\<close>

text \<open>
  What the tool takes from the runtime it runs in, as a parameter of the model.

  \<^item> \<open>str.lower\<close> and \<open>str.capitalize\<close> follow the Unicode case mappings. On ASCII code
    points they are fixed: lower-casing sends \<open>A\<close>..\<open>Z\<close> to \<open>a\<close>..\<open>z\<close>, upper-casing and
    title-casing send \<open>a\<close>..\<open>z\<close> to \<open>A\<close>..\<open>Z\<close>, and every other ASCII code point is left
    alone. For the other code points \<open>lower_full\<close> gives the lowercase expansion of a
    code point between the code points to its left and right (the expansion of a
    capital sigma depends on them), and \<open>title_full\<close> the expansion that \<open>capitalize\<close>
    applies to a leading code point.
  \<^item> \<open>repr\<close> of a string escapes the code points outside ASCII that are not
    \<open>printable\<close>.
  \<^item> \<open>float_repr\<close> is the text of a \<open>float\<close>.
  \<^item> \<open>print\<close> writes to standard output, a text stream with a codec and an error
    handler: \<open>encodable\<close> tells which code points the stream accepts. With the default
    handler \<open>strict\<close>, \<open>print\<close> raises \<open>UnicodeEncodeError\<close> on a text that holds any
    other code point. A stream opened with a handler that replaces or escapes what the
    codec cannot encode accepts every code point.
\<close>

record runtime =
  lower_full :: "pystr \<Rightarrow> codepoint \<Rightarrow> pystr \<Rightarrow> pystr"
  title_full :: "codepoint \<Rightarrow> pystr"
  printable :: "codepoint \<Rightarrow> bool"
  float_repr :: "rat \<Rightarrow> pystr"
  encodable :: "codepoint \<Rightarrow> bool"

section \<open>String methods\<close>

definition is_ascii :: "codepoint \<Rightarrow> bool" where
  "is_ascii c = (c < 128)"

definition ascii_lower :: "codepoint \<Rightarrow> codepoint" where
  "ascii_lower c = (if 65 \<le> c \<and> c \<le> 90 then c + 32 else c)"

definition ascii_upper :: "codepoint \<Rightarrow> codepoint" where
  "ascii_upper c = (if 97 \<le> c \<and> c \<le> 122 then c - 32 else c)"

definition lower_char :: "runtime \<Rightarrow> pystr \<Rightarrow> codepoint \<Rightarrow> pystr \<Rightarrow> pystr" where
  "lower_char R left c right =
     (if is_ascii c then [ascii_lower c] else lower_full R left c right)"

fun lower_from :: "runtime \<Rightarrow> pystr \<Rightarrow> pystr \<Rightarrow> pystr" where
  "lower_from R left [] = []"
| "lower_from R left (c # right) =
     lower_char R left c right @ lower_from R (left @ [c]) right"

definition str_lower :: "runtime \<Rightarrow> pystr \<Rightarrow> pystr" where
  "str_lower R s = lower_from R [] s"

text \<open>\<open>s.capitalize()\<close>: the first code point in title case, all the others in lower case.\<close>

definition str_capitalize :: "runtime \<Rightarrow> pystr \<Rightarrow> pystr" where
  "str_capitalize R s =
     (case s of
        [] \<Rightarrow> []
      | c # cs \<Rightarrow>
          (if is_ascii c then [ascii_upper c] else title_full R c) @ lower_from R [c] cs)"

text \<open>\<open>s.replace(old, new)\<close> for a pattern \<open>old\<close> of one code point.\<close>

definition str_replace :: "pystr \<Rightarrow> codepoint \<Rightarrow> pystr \<Rightarrow> pystr" where
  "str_replace s old new = concat (map (\<lambda>c. if c = old then new else [c]) s)"

section \<open>Texts of values\<close>

fun digits :: "nat \<Rightarrow> pystr" where
  "digits n = (if n < 10 then [48 + n] else digits (n div 10) @ [48 + n mod 10])"

declare digits.simps [simp del]

text \<open>The decimal numeral of an integer, which is \<open>str\<close> of an \<open>int\<close>.\<close>

definition decimal :: "int \<Rightarrow> pystr" where
  "decimal i = (if i < 0 then 45 # digits (nat (- i)) else digits (nat i))"

text \<open>
  \<open>f"{v}"\<close> inserts \<open>format(v, "")\<close>, which is \<open>str(v)\<close>: a string as it is, the other
  values by their usual text.
\<close>

fun py_str :: "runtime \<Rightarrow> pyval \<Rightarrow> pystr" where
  "py_str R (PStr s) = s"
| "py_str R PNone = ustr ''None''"
| "py_str R (PBool b) = (if b then ustr ''True'' else ustr ''False'')"
| "py_str R (PInt i) = decimal i"
| "py_str R (PFloat x) = float_repr R x"

text \<open>The last \<open>width\<close> hexadecimal digits of a number, in lower case.\<close>

fun hex :: "nat \<Rightarrow> nat \<Rightarrow> pystr" where
  "hex 0 n = []"
| "hex (Suc width) n =
     hex width (n div 16) @ [if n mod 16 < 10 then 48 + n mod 16 else 87 + n mod 16]"

text \<open>
  \<open>repr(s)\<close> of a string: between single quotes, or between double quotes when the
  string holds a single quote and no double quote; the quote in use and the backslash
  are escaped, so are the control characters, and so are the code points outside ASCII
  that are not printable.
\<close>

definition repr_char :: "runtime \<Rightarrow> codepoint \<Rightarrow> codepoint \<Rightarrow> pystr" where
  "repr_char R quote c =
     (if c = quote \<or> c = backslash then [backslash, c]
      else if c = 9 then [backslash, 116]
      else if c = 10 then [backslash, 110]
      else if c = 13 then [backslash, 114]
      else if c < 32 \<or> c = 127 then [backslash, 120] @ hex 2 c
      else if c < 127 then [c]
      else if printable R c then [c]
      else if c < 256 then [backslash, 120] @ hex 2 c
      else if c < 65536 then [backslash, 117] @ hex 4 c
      else [backslash, 85] @ hex 8 c)"

definition str_repr :: "runtime \<Rightarrow> pystr \<Rightarrow> pystr" where
  "str_repr R s =
     (let quote = (if apostrophe \<in> set s \<and> 34 \<notin> set s then 34 else apostrophe)
      in [quote] @ concat (map (repr_char R quote) s) @ [quote])"

section \<open>Formatting a number with \<open>.0f\<close>\<close>

definition round_half_even :: "rat \<Rightarrow> int" where
  "round_half_even x =
     (let f = \<lfloor>x\<rfloor>; d = x - of_int f
      in if d < 1 / 2 then f
         else if 1 / 2 < d then f + 1
         else if even f then f else f + 1)"

definition format_fixed0 :: "rat \<Rightarrow> pystr" where
  "format_fixed0 x =
     (if x < 0 then 45 # digits (nat (round_half_even (- x)))
      else digits (nat (round_half_even x)))"

text \<open>
  \<open>format(v, ".0f")\<close>: an \<open>int\<close> or \<open>bool\<close> is converted to \<open>float\<close> first, a \<open>str\<close> raises
  \<open>ValueError\<close> and \<open>None\<close> raises \<open>TypeError\<close>.
\<close>

fun py_format_f0 :: "pyval \<Rightarrow> py_error + pystr" where
  "py_format_f0 (PFloat x) = Inr (format_fixed0 x)"
| "py_format_f0 (PInt i) = Inr (format_fixed0 (of_int i))"
| "py_format_f0 (PBool b) = Inr (format_fixed0 (if b then 1 else 0))"
| "py_format_f0 (PStr s) = Inl ValueError"
| "py_format_f0 PNone = Inl TypeError"

section \<open>Writing to the log\<close>

text \<open>
  \<open>print(text)\<close> writes the text and a newline to standard output. It succeeds when the
  stream accepts every code point of both, and raises \<open>UnicodeEncodeError\<close> otherwise.
\<close>

definition print_ok :: "runtime \<Rightarrow> pystr \<Rightarrow> bool" where
  "print_ok R text = list_all (encodable R) (text @ [10])"

text \<open>The five lines the tool logs (lines 52, 55, 78, 81 and 86 of \<open>agent.py\<close>).\<close>

definition log_called :: "pystr \<Rightarrow> pystr" where
  "log_called city = ustr ''--- Tool: get_weather_stateful called for '' @ city @ ustr '' ---''"

definition log_reading :: "runtime \<Rightarrow> pyval \<Rightarrow> pystr" where
  "log_reading R preferred_unit =
     ustr ''--- Tool: Reading state 'user_preference_temperature_unit': ''
     @ py_str R preferred_unit @ ustr '' ---''"

text \<open>
  The third line shows the result dictionary, whose text is
  \<open>{'status': 'success', 'report': <repr of the report>}\<close>.
\<close>

definition log_generated :: "runtime \<Rightarrow> pyval \<Rightarrow> pystr \<Rightarrow> pystr" where
  "log_generated R preferred_unit report =
     ustr ''--- Tool: Generated report in '' @ py_str R preferred_unit
     @ ustr ''. Result: '' @ ustr ''{'status': 'success', 'report': '' @ str_repr R report
     @ ustr ''}'' @ ustr '' ---''"

definition log_updated :: "pystr \<Rightarrow> pystr" where
  "log_updated city =
     ustr ''--- Tool: Updated state 'last_city_checked_stateful': '' @ city @ ustr '' ---''"

definition log_not_found :: "pystr \<Rightarrow> pystr" where
  "log_not_found city =
     ustr ''--- Tool: City '' @ [apostrophe] @ city @ [apostrophe] @ ustr '' not found. ---''"

section \<open>The stateful weather tool\<close>

record weather =
  temp_c :: int
  condition :: pystr

definition mock_weather_db :: "pystr \<rightharpoonup> weather" where
  "mock_weather_db =
     [ustr ''newyork'' \<mapsto> \<lparr>temp_c = 25, condition = ustr ''sunny''\<rparr>,
      ustr ''london'' \<mapsto> \<lparr>temp_c = 15, condition = ustr ''cloudy''\<rparr>,
      ustr ''tokyo'' \<mapsto> \<lparr>temp_c = 18, condition = ustr ''light rain''\<rparr>]"

text \<open>The lookup key of a city: lower-cased, with every space removed.\<close>

definition normalized_key :: "runtime \<Rightarrow> pystr \<Rightarrow> pystr" where
  "normalized_key R city = str_replace (str_lower R city) 32 []"

text \<open>
  Lines 66 to 76 of \<open>agent.py\<close>: the report for an entry of the table, in the preferred
  unit. The format \<open>.0f\<close> is the one step that can raise.
\<close>

definition weather_report :: "runtime \<Rightarrow> pystr \<Rightarrow> pyval \<Rightarrow> weather \<Rightarrow> py_error + pystr" where
  "weather_report R city preferred_unit data =
     (let (temp_value, temp_unit) =
            (if py_eq_str preferred_unit (ustr ''Fahrenheit'')
             then (PFloat (of_int (temp_c data * 9) / 5 + 32), [degree_sign, 70])
             else (PInt (temp_c data), [degree_sign, 67]))
      in case py_format_f0 temp_value of
           Inl e \<Rightarrow> Inl e
         | Inr shown \<Rightarrow>
             Inr (ustr ''The weather in '' @ str_capitalize R city @ ustr '' is ''
                  @ condition data @ ustr '' with a temperature of ''
                  @ shown @ temp_unit @ ustr ''.''))"

text \<open>
  \<open>get_weather_stateful(city, tool_context)\<close>. The state of the tool context is passed in,
  and the function returns its outcome together with the state after the call. The
  outcome is the result dictionary (\<open>Inr\<close>) or the exception that leaves the function
  (\<open>Inl\<close>). The statements are in the order of the source: the two \<open>print\<close> calls of
  lines 52 and 55 come before the lookup, the one of line 78 before the write to the
  state, and the one of line 81 after it, so an exception raised there leaves the state
  written.
\<close>

definition get_weather_stateful ::
  "runtime \<Rightarrow> pystr \<Rightarrow> pydict \<Rightarrow> (py_error + pydict) \<times> pydict" where
  "get_weather_stateful R city state =
     (if \<not> print_ok R (log_called city) then (Inl UnicodeEncodeError, state)
      else
        (let preferred_unit =
               dict_get state (ustr ''user_preference_temperature_unit'') (PStr (ustr ''Celsius''))
         in if \<not> print_ok R (log_reading R preferred_unit) then (Inl UnicodeEncodeError, state)
            else
              (let city_normalized = str_replace (str_lower R city) 32 []
               in if dict_contains mock_weather_db city_normalized then
                    (case getitem mock_weather_db city_normalized of
                       Inl e \<Rightarrow> (Inl e, state)
                     | Inr data \<Rightarrow>
                         (case weather_report R city preferred_unit data of
                            Inl e \<Rightarrow> (Inl e, state)
                          | Inr report \<Rightarrow>
                              (let result = [ustr ''status'' \<mapsto> PStr (ustr ''success''),
                                             ustr ''report'' \<mapsto> PStr report]
                               in if \<not> print_ok R (log_generated R preferred_unit report)
                                  then (Inl UnicodeEncodeError, state)
                                  else
                                    (let state' =
                                           state(ustr ''last_city_checked_stateful'' \<mapsto> PStr city)
                                     in if \<not> print_ok R (log_updated city)
                                        then (Inl UnicodeEncodeError, state')
                                        else (Inr result, state')))))
                  else
                    (let error_msg =
                           ustr ''Sorry, I don't have weather information for ''
                           @ [apostrophe] @ city @ [apostrophe] @ ustr ''.''
                     in if \<not> print_ok R (log_not_found city)
                        then (Inl UnicodeEncodeError, state)
                        else (Inr [ustr ''status'' \<mapsto> PStr (ustr ''error''),
                                   ustr ''error_message'' \<mapsto> PStr error_msg], state)))))"

section \<open>Reading a result, and notions of the specification\<close>

text \<open>A field of the returned dictionary; an exception has no field.\<close>

definition result_field :: "py_error + pydict \<Rightarrow> pystr \<Rightarrow> pyval option" where
  "result_field res key = (case res of Inl e \<Rightarrow> None | Inr r \<Rightarrow> r key)"

text \<open>
  Standard output accepts the lines of a call: every text that the call passes to
  \<open>print\<close> on its way through the tool, for this city and this state, is one the
  stream can encode.
\<close>

definition log_accepted :: "runtime \<Rightarrow> pystr \<Rightarrow> pydict \<Rightarrow> bool" where
  "log_accepted R city state =
     (let preferred_unit =
            dict_get state (ustr ''user_preference_temperature_unit'') (PStr (ustr ''Celsius''))
      in print_ok R (log_called city) \<and> print_ok R (log_reading R preferred_unit)
         \<and> (case mock_weather_db (normalized_key R city) of
              None \<Rightarrow> print_ok R (log_not_found city)
            | Some data \<Rightarrow>
                (case weather_report R city preferred_unit data of
                   Inl e \<Rightarrow> True
                 | Inr report \<Rightarrow>
                     print_ok R (log_generated R preferred_unit report)
                     \<and> print_ok R (log_updated city))))"

text \<open>
  The capitalisation as the specification words it: the first code point upper-cased,
  every other code point left as it is.
\<close>

definition upper_first :: "runtime \<Rightarrow> pystr \<Rightarrow> pystr" where
  "upper_first R s =
     (case s of
        [] \<Rightarrow> []
      | c # cs \<Rightarrow> (if is_ascii c then [ascii_upper c] else title_full R c) @ cs)"

text \<open>
  An instance of the runtime for evaluating the tool on concrete inputs. Standard
  output is a UTF-8 stream with the handler \<open>strict\<close>, the default: it accepts every
  code point but the surrogates U+D800 to U+DFFF. The instance takes the code points
  outside ASCII as caseless and, the surrogates apart, as printable, and a \<open>float\<close> as
  printed with one decimal; it is used below on inputs for which this is what Python
  does (ASCII text, the degree sign, ideographs, a lone surrogate, no \<open>float\<close>).
\<close>

definition surrogate :: "codepoint \<Rightarrow> bool" where
  "surrogate c = (55296 \<le> c \<and> c \<le> 57343)"

definition utf8_runtime :: runtime where
  "utf8_runtime =
     \<lparr>lower_full = (\<lambda>left c right. [c]),
      title_full = (\<lambda>c. [c]),
      printable = (\<lambda>c. \<not> surrogate c),
      float_repr = (\<lambda>x. decimal \<lfloor>x\<rfloor> @ ustr ''.0''),
      encodable = (\<lambda>c. \<not> surrogate c)\<rparr>"

section \<open>Properties of the building blocks\<close>

subsection \<open>Literals and number formatting\<close>

lemma ustr_eq_iff [simp]: "ustr s = ustr t \<longleftrightarrow> s = t"
  by (simp add: ustr_def inj_map_eq_map [OF inj_of_char])

lemmas ascii_eval =
  normalized_key_def str_replace_def str_lower_def str_capitalize_def lower_char_def
  is_ascii_def ascii_lower_def ascii_upper_def ustr_def

lemma floor_rat_numeral: "\<lfloor>numeral a / numeral b :: rat\<rfloor> = numeral a div numeral b"
  by (metis floor_divide_of_int_eq of_int_numeral)

lemma round_half_even_of_int: "round_half_even (of_int i) = i"
  by (simp add: round_half_even_def)

lemma format_fixed0_of_int: "format_fixed0 (of_int i) = decimal i"
  using round_half_even_of_int [of "- i"]
  by (simp add: format_fixed0_def decimal_def round_half_even_of_int)

lemma format_fixed0_numeral: "format_fixed0 (numeral n) = decimal (numeral n)"
  using format_fixed0_of_int [of "numeral n"] by simp

subsection \<open>The table and the unit preference\<close>

lemma mock_weather_db_cases:
  "mock_weather_db k = Some data \<longleftrightarrow>
     k = ustr ''newyork'' \<and> data = \<lparr>temp_c = 25, condition = ustr ''sunny''\<rparr>
   \<or> k = ustr ''london'' \<and> data = \<lparr>temp_c = 15, condition = ustr ''cloudy''\<rparr>
   \<or> k = ustr ''tokyo'' \<and> data = \<lparr>temp_c = 18, condition = ustr ''light rain''\<rparr>"
  by (auto simp add: mock_weather_db_def)

lemma mock_weather_db_None:
  "mock_weather_db k = None \<longleftrightarrow> k \<notin> {ustr ''newyork'', ustr ''london'', ustr ''tokyo''}"
  by (simp add: mock_weather_db_def)

lemma prefers_fahrenheit:
  "py_eq_str (dict_get st k (PStr (ustr ''Celsius''))) (ustr ''Fahrenheit'')
     \<longleftrightarrow> st k = Some (PStr (ustr ''Fahrenheit''))"
proof (cases "st k")
  case None
  then show ?thesis by (simp add: dict_get_def ustr_def)
next
  case (Some v)
  then show ?thesis by (cases v) (simp_all add: dict_get_def)
qed

lemma fahrenheit_table:
  assumes "mock_weather_db k = Some data"
  shows "format_fixed0 (of_int (temp_c data) * 9 / 5 + 32)
           = decimal (round (of_int (temp_c data) * 9 / 5 + 32 :: rat))"
  using assms unfolding mock_weather_db_cases
  by (auto simp add: format_fixed0_def round_half_even_def round_def decimal_def Let_def
      floor_rat_numeral)

subsection \<open>Rounding of the Fahrenheit values\<close>

text \<open>
  The Fahrenheit value is computed in double precision by the source and in exact
  rational arithmetic here. For the three temperatures of the table the difference
  cannot be seen in the report: every number within \<open>1 / 10\<close> of the exact value,
  a margin far above the rounding error of the two double operations, is shown as the
  same integer.
\<close>

lemma round_half_even_near:
  assumes "of_int n - 1 / 2 < x" and "x < of_int n + 1 / 2"
  shows "round_half_even x = n"
proof (cases "of_int n \<le> x")
  case True
  with assms have "\<lfloor>x\<rfloor> = n" by (intro floor_unique) simp_all
  with assms show ?thesis by (simp add: round_half_even_def)
next
  case False
  with assms have "\<lfloor>x\<rfloor> = n - 1" by (intro floor_unique) simp_all
  with assms show ?thesis by (simp add: round_half_even_def)
qed

lemma fahrenheit_stable:
  assumes "mock_weather_db k = Some data"
    and "\<bar>x - (of_int (temp_c data) * 9 / 5 + 32)\<bar> < 1 / 10"
  shows "round_half_even x = round (of_int (temp_c data) * 9 / 5 + 32 :: rat)"
proof -
  from assms(1) consider "temp_c data = 25" | "temp_c data = 15" | "temp_c data = 18"
    unfolding mock_weather_db_cases by auto
  then show ?thesis
  proof cases
    case 1
    with assms(2) have "of_int 77 - 1 / 2 < x" and "x < of_int 77 + 1 / 2"
      by (simp_all, linarith+)
    then have "round_half_even x = 77" by (rule round_half_even_near)
    with 1 show ?thesis by (simp add: round_def floor_rat_numeral)
  next
    case 2
    with assms(2) have "of_int 59 - 1 / 2 < x" and "x < of_int 59 + 1 / 2"
      by (simp_all, linarith+)
    then have "round_half_even x = 59" by (rule round_half_even_near)
    with 2 show ?thesis by (simp add: round_def floor_rat_numeral)
  next
    case 3
    with assms(2) have "of_int 64 - 1 / 2 < x" and "x < of_int 64 + 1 / 2"
      by (simp_all, linarith+)
    then have "round_half_even x = 64" by (rule round_half_even_near)
    with 3 show ?thesis by (simp add: round_def floor_rat_numeral)
  qed
qed

subsection \<open>The report\<close>

text \<open>The value that is formatted is a number, so the report is always built.\<close>

lemma weather_report_eq:
  "weather_report R city preferred_unit data =
     Inr (ustr ''The weather in '' @ str_capitalize R city @ ustr '' is ''
          @ condition data @ ustr '' with a temperature of ''
          @ (if py_eq_str preferred_unit (ustr ''Fahrenheit'')
             then format_fixed0 (of_int (temp_c data * 9) / 5 + 32) @ [degree_sign, 70]
             else decimal (temp_c data) @ [degree_sign, 67])
          @ ustr ''.'')"
  by (simp add: weather_report_def format_fixed0_of_int)

lemma weather_report_table:
  assumes "mock_weather_db k = Some data"
  shows "weather_report R city (dict_get st (ustr ''user_preference_temperature_unit'')
                                  (PStr (ustr ''Celsius''))) data =
     Inr (ustr ''The weather in '' @ str_capitalize R city @ ustr '' is ''
          @ condition data @ ustr '' with a temperature of ''
          @ (if st (ustr ''user_preference_temperature_unit'') = Some (PStr (ustr ''Fahrenheit''))
             then decimal (round (of_int (temp_c data) * 9 / 5 + 32 :: rat)) @ [degree_sign, 70]
             else decimal (temp_c data) @ [degree_sign, 67])
          @ ustr ''.'')"
  by (simp add: weather_report_eq prefers_fahrenheit fahrenheit_table [OF assms])

subsection \<open>The paths of the tool\<close>

text \<open>
  When standard output accepts the lines of a call, a key of the table leads to the
  success result and to the write of the city, and any other key leads to the error
  result and leaves the state alone. When it refuses one of them, the call ends in
  \<open>UnicodeEncodeError\<close>. No other exception leaves the tool: the subscript is guarded
  by the membership test, and the value that is formatted is a number. So the lines
  are accepted exactly when the call returns a result.
\<close>

lemma found:
  assumes "mock_weather_db (normalized_key R city) = Some data"
    and "log_accepted R city st"
  shows "get_weather_stateful R city st =
     (Inr [ustr ''status'' \<mapsto> PStr (ustr ''success''),
           ustr ''report'' \<mapsto> PStr
             (ustr ''The weather in '' @ str_capitalize R city @ ustr '' is ''
              @ condition data @ ustr '' with a temperature of ''
              @ (if st (ustr ''user_preference_temperature_unit'') = Some (PStr (ustr ''Fahrenheit''))
                 then decimal (round (of_int (temp_c data) * 9 / 5 + 32 :: rat)) @ [degree_sign, 70]
                 else decimal (temp_c data) @ [degree_sign, 67])
              @ ustr ''.'')],
      st(ustr ''last_city_checked_stateful'' \<mapsto> PStr city))"
  using assms
  unfolding get_weather_stateful_def log_accepted_def normalized_key_def [symmetric] Let_def
  by (simp add: dict_contains_def getitem_def weather_report_table [OF assms(1)])

lemma not_found:
  assumes "mock_weather_db (normalized_key R city) = None"
    and "log_accepted R city st"
  shows "get_weather_stateful R city st =
     (Inr [ustr ''status'' \<mapsto> PStr (ustr ''error''),
           ustr ''error_message'' \<mapsto> PStr
             (ustr ''Sorry, I don't have weather information for ''
              @ [apostrophe] @ city @ [apostrophe] @ ustr ''.'')],
      st)"
  using assms
  unfolding get_weather_stateful_def log_accepted_def normalized_key_def [symmetric] Let_def
  by (simp add: dict_contains_def)

lemma not_found_state:
  assumes "mock_weather_db (normalized_key R city) = None"
  shows "snd (get_weather_stateful R city st) = st"
  using assms
  unfolding get_weather_stateful_def normalized_key_def [symmetric] Let_def
  by (simp add: dict_contains_def)

lemma refused:
  assumes "\<not> log_accepted R city st"
  shows "fst (get_weather_stateful R city st) = Inl UnicodeEncodeError"
proof (cases "mock_weather_db (normalized_key R city)")
  case None
  with assms show ?thesis
    unfolding get_weather_stateful_def log_accepted_def normalized_key_def [symmetric] Let_def
    by (auto simp add: dict_contains_def)
next
  case (Some data)
  with assms show ?thesis
    unfolding get_weather_stateful_def log_accepted_def normalized_key_def [symmetric] Let_def
    by (auto simp add: dict_contains_def getitem_def weather_report_eq)
qed



text \<open>A stream that accepts every code point accepts the lines of every call.\<close>

lemma accepting_stream:
  assumes "\<forall>c. encodable R c"
  shows "log_accepted R city st"
  using assms
  by (simp add: log_accepted_def print_ok_def list_all_iff Let_def
      split: option.splits sum.splits)

text \<open>A call reads the state only under the key of the unit preference.\<close>

lemma log_accepted_cong:
  assumes "st (ustr ''user_preference_temperature_unit'')
             = st' (ustr ''user_preference_temperature_unit'')"
  shows "log_accepted R city st = log_accepted R city st'"
  using assms by (simp add: log_accepted_def dict_get_def)

lemma outcome_cong:
  assumes "dict_get st (ustr ''user_preference_temperature_unit'') (PStr (ustr ''Celsius''))
             = dict_get st' (ustr ''user_preference_temperature_unit'') (PStr (ustr ''Celsius''))"
  shows "fst (get_weather_stateful R city st) = fst (get_weather_stateful R city st')
       \<and> (snd (get_weather_stateful R city st) = st
            \<and> snd (get_weather_stateful R city st') = st'
          \<or> snd (get_weather_stateful R city st)
               = st(ustr ''last_city_checked_stateful'' \<mapsto> PStr city)
            \<and> snd (get_weather_stateful R city st')
               = st'(ustr ''last_city_checked_stateful'' \<mapsto> PStr city))"
  unfolding get_weather_stateful_def Let_def assms
  by (simp add: weather_report_eq split: sum.splits)

subsection \<open>Fields of the result\<close>

lemma status_found:
  assumes "mock_weather_db (normalized_key R city) = Some data"
    and "log_accepted R city st"
  shows "result_field (fst (get_weather_stateful R city st)) (ustr ''status'')
           = Some (PStr (ustr ''success''))"
  by (simp add: found [OF assms] result_field_def)

lemma status_not_found:
  assumes "mock_weather_db (normalized_key R city) = None"
    and "log_accepted R city st"
  shows "result_field (fst (get_weather_stateful R city st)) (ustr ''status'')
           = Some (PStr (ustr ''error''))"
  by (simp add: not_found [OF assms] result_field_def)

lemma status_refused:
  assumes "\<not> log_accepted R city st"
  shows "result_field (fst (get_weather_stateful R city st)) key = None"
  by (simp add: refused [OF assms] result_field_def)

lemma report_found:
  assumes "mock_weather_db (normalized_key R city) = Some data"
    and "log_accepted R city st"
  shows "result_field (fst (get_weather_stateful R city st)) (ustr ''report'') =
     Some (PStr
       (ustr ''The weather in '' @ str_capitalize R city @ ustr '' is ''
        @ condition data @ ustr '' with a temperature of ''
        @ (if st (ustr ''user_preference_temperature_unit'') = Some (PStr (ustr ''Fahrenheit''))
           then decimal (round (of_int (temp_c data) * 9 / 5 + 32 :: rat)) @ [degree_sign, 70]
           else decimal (temp_c data) @ [degree_sign, 67])
        @ ustr ''.''))"
  by (simp add: found [OF assms] result_field_def)

lemma found_some_report:
  assumes "mock_weather_db (normalized_key R city) = Some data"
    and "log_accepted R city st"
  shows "\<exists>report. get_weather_stateful R city st =
     (Inr [ustr ''status'' \<mapsto> PStr (ustr ''success''), ustr ''report'' \<mapsto> PStr report],
      st(ustr ''last_city_checked_stateful'' \<mapsto> PStr city))"
  by (intro exI) (rule found [OF assms])

subsection \<open>Case conversion of ASCII strings\<close>

text \<open>On a string of ASCII code points the case tables of the runtime play no part.\<close>

lemma lower_from_ascii:
  "\<forall>c\<in>set s. is_ascii c \<Longrightarrow> lower_from R left s = map ascii_lower s"
  by (induction s arbitrary: left) (simp_all add: lower_char_def)

lemma str_capitalize_ascii:
  "\<forall>c\<in>set s. is_ascii c \<Longrightarrow>
     str_capitalize R s = (case s of [] \<Rightarrow> [] | c # cs \<Rightarrow> ascii_upper c # map ascii_lower cs)"
  by (cases s) (simp_all add: str_capitalize_def lower_from_ascii)

subsection \<open>The entries of some concrete cities\<close>

text \<open>These city names are ASCII strings, so their keys are the same in every runtime.\<close>

lemma newyork_entry:
  "mock_weather_db (normalized_key R (ustr ''New York''))
     = Some \<lparr>temp_c = 25, condition = ustr ''sunny''\<rparr>"
  unfolding mock_weather_db_cases by (simp add: ascii_eval)

lemma london_entry:
  "mock_weather_db (normalized_key R (ustr ''London''))
     = Some \<lparr>temp_c = 15, condition = ustr ''cloudy''\<rparr>"
  unfolding mock_weather_db_cases by (simp add: ascii_eval)

lemma tokyo_entry:
  "mock_weather_db (normalized_key R (ustr ''Tokyo''))
     = Some \<lparr>temp_c = 18, condition = ustr ''light rain''\<rparr>"
  unfolding mock_weather_db_cases by (simp add: ascii_eval)

lemma shouting_london_entry:
  "mock_weather_db (normalized_key R (ustr ''LONDON''))
     = Some \<lparr>temp_c = 15, condition = ustr ''cloudy''\<rparr>"
  unfolding mock_weather_db_cases by (simp add: ascii_eval)


lemma paris_no_entry: "mock_weather_db (normalized_key R (ustr ''Paris'')) = None"
  unfolding mock_weather_db_None by (simp add: ascii_eval)

subsection \<open>Lines that a UTF-8 stream accepts\<close>

lemmas log_eval =
  print_ok_def log_called_def log_reading_def log_generated_def log_updated_def
  log_not_found_def str_repr_def repr_char_def utf8_runtime_def surrogate_def dict_get_def
  apostrophe_def backslash_def degree_sign_def decimal_def digits.simps
  format_fixed0_def round_half_even_def round_def floor_rat_numeral Let_def

lemma utf8_accepts_newyork:
  "st (ustr ''user_preference_temperature_unit'') = None
     \<Longrightarrow> log_accepted utf8_runtime (ustr ''New York'') st"
  unfolding log_accepted_def Let_def newyork_entry weather_report_eq
  by (simp add: log_eval ascii_eval)

lemma utf8_accepts_london:
  "st (ustr ''user_preference_temperature_unit'') = None
   \<or> st (ustr ''user_preference_temperature_unit'') = Some (PStr (ustr ''Fahrenheit''))
   \<or> st (ustr ''user_preference_temperature_unit'') = Some (PStr (ustr ''fahrenheit''))
     \<Longrightarrow> log_accepted utf8_runtime (ustr ''London'') st"
  unfolding log_accepted_def Let_def london_entry weather_report_eq
  by (auto simp add: log_eval ascii_eval)

lemma utf8_accepts_paris:
  "st (ustr ''user_preference_temperature_unit'') = Some (PStr (ustr ''Fahrenheit''))
     \<Longrightarrow> log_accepted utf8_runtime (ustr ''Paris'') st"
  unfolding log_accepted_def Let_def paris_no_entry
  by (simp add: log_eval ascii_eval)

lemma utf8_refuses_surrogate: "\<not> log_accepted utf8_runtime [55296] st"
  by (simp add: log_accepted_def Let_def log_eval)

subsection \<open>Storing the default unit changes no outcome\<close>



section \<open>The claims\<close>

text \<open>
  C1, as stated, fails. The claim promises the error result for every city outside
  the table. The tool first logs the city with \<open>print\<close>: for a city that holds the lone
  surrogate U+D800, a UTF-8 stream refuses the line, \<open>print\<close> raises
  \<open>UnicodeEncodeError\<close> and no result is returned.
\<close>

theorem success_iff_city_known_counterexample:
  "normalized_key utf8_runtime [55296] \<notin> {ustr ''newyork'', ustr ''london'', ustr ''tokyo''}
   \<and> fst (get_weather_stateful utf8_runtime [55296] Map.empty) = Inl UnicodeEncodeError
   \<and> result_field (fst (get_weather_stateful utf8_runtime [55296] Map.empty)) (ustr ''status'')
       \<noteq> Some (PStr (ustr ''error''))"
  using refused [OF utf8_refuses_surrogate, of Map.empty]
  by (simp add: result_field_def utf8_runtime_def ascii_eval)

text \<open>
  C1, amended. Whenever standard output accepts the lines that the call logs, the
  result has status \<open>success\<close> exactly when the normalized city key is one of the three
  keys of the table; in every other case the result has status \<open>error\<close> and the state
  after the call is the state before it.
\<close>

theorem success_iff_city_known:
  assumes "log_accepted R city st"
  shows "(result_field (fst (get_weather_stateful R city st)) (ustr ''status'')
            = Some (PStr (ustr ''success''))
          \<longleftrightarrow> normalized_key R city \<in> {ustr ''newyork'', ustr ''london'', ustr ''tokyo''})
       \<and> (normalized_key R city \<notin> {ustr ''newyork'', ustr ''london'', ustr ''tokyo''} \<longrightarrow>
            result_field (fst (get_weather_stateful R city st)) (ustr ''status'')
              = Some (PStr (ustr ''error''))
            \<and> snd (get_weather_stateful R city st) = st)"
proof (cases "mock_weather_db (normalized_key R city)")
  case None
  then have "normalized_key R city \<notin> {ustr ''newyork'', ustr ''london'', ustr ''tokyo''}"
    by (simp add: mock_weather_db_None)
  moreover have "snd (get_weather_stateful R city st) = st"
    by (rule not_found_state [OF None])
  ultimately show ?thesis
    by (simp add: status_not_found [OF None assms])
next
  case (Some data)
  then have "normalized_key R city \<in> {ustr ''newyork'', ustr ''london'', ustr ''tokyo''}"
    using mock_weather_db_None [of "normalized_key R city"] by auto
  then show ?thesis
    by (simp add: status_found [OF Some assms])
qed

theorem success_iff_city_known_witness:
  "log_accepted utf8_runtime (ustr ''Paris'')
      [ustr ''user_preference_temperature_unit'' \<mapsto> PStr (ustr ''Fahrenheit'')]
   \<and> normalized_key utf8_runtime (ustr ''Paris'')
       \<notin> {ustr ''newyork'', ustr ''london'', ustr ''tokyo''}
   \<and> result_field (fst (get_weather_stateful utf8_runtime (ustr ''Paris'')
          [ustr ''user_preference_temperature_unit'' \<mapsto> PStr (ustr ''Fahrenheit'')]))
        (ustr ''status'') = Some (PStr (ustr ''error''))
   \<and> snd (get_weather_stateful utf8_runtime (ustr ''Paris'')
          [ustr ''user_preference_temperature_unit'' \<mapsto> PStr (ustr ''Fahrenheit'')])
        = [ustr ''user_preference_temperature_unit'' \<mapsto> PStr (ustr ''Fahrenheit'')]
   \<and> log_accepted utf8_runtime (ustr ''New York'') Map.empty
   \<and> normalized_key utf8_runtime (ustr ''New York'')
       \<in> {ustr ''newyork'', ustr ''london'', ustr ''tokyo''}
   \<and> result_field (fst (get_weather_stateful utf8_runtime (ustr ''New York'') Map.empty))
        (ustr ''status'') = Some (PStr (ustr ''success''))"
proof -
  let ?st = "[ustr ''user_preference_temperature_unit'' \<mapsto> PStr (ustr ''Fahrenheit'')]"
  have log_paris: "log_accepted utf8_runtime (ustr ''Paris'') ?st"
    by (rule utf8_accepts_paris) simp
  have log_newyork: "log_accepted utf8_runtime (ustr ''New York'') Map.empty"
    by (rule utf8_accepts_newyork) simp
  have paris: "normalized_key utf8_runtime (ustr ''Paris'')
                 \<notin> {ustr ''newyork'', ustr ''london'', ustr ''tokyo''}"
    by (simp add: ascii_eval)
  have newyork: "normalized_key utf8_runtime (ustr ''New York'')
                 \<in> {ustr ''newyork'', ustr ''london'', ustr ''tokyo''}"
    by (simp add: ascii_eval)
  from paris newyork log_paris log_newyork
    success_iff_city_known [OF log_paris] success_iff_city_known [OF log_newyork]
  show ?thesis by blast
qed

text \<open>
  C2, as stated, fails. The claim lets the report show the input with its first code
  point upper-cased and every other code point as typed. The tool calls
  \<open>city.capitalize()\<close>, which also lower-cases every code point after the first: for
  \<open>New York\<close> the report reads \<open>New york\<close>, and for \<open>LONDON\<close> it reads \<open>London\<close>.
\<close>

theorem report_keeps_input_case_counterexample:
  "mock_weather_db (normalized_key utf8_runtime (ustr ''New York'')) \<noteq> None
   \<and> upper_first utf8_runtime (ustr ''New York'') = ustr ''New York''
   \<and> result_field (fst (get_weather_stateful utf8_runtime (ustr ''New York'') Map.empty))
        (ustr ''report'')
      = Some (PStr (ustr ''The weather in New york is sunny with a temperature of 25''
                    @ [degree_sign, 67] @ ustr ''.''))
   \<and> result_field (fst (get_weather_stateful utf8_runtime (ustr ''New York'') Map.empty))
        (ustr ''report'')
      \<noteq> Some (PStr (ustr ''The weather in '' @ upper_first utf8_runtime (ustr ''New York'')
                    @ ustr '' is sunny with a temperature of 25''
                    @ [degree_sign, 67] @ ustr ''.''))
   \<and> mock_weather_db (normalized_key utf8_runtime (ustr ''LONDON'')) \<noteq> None
   \<and> upper_first utf8_runtime (ustr ''LONDON'') = ustr ''LONDON''
   \<and> result_field (fst (get_weather_stateful utf8_runtime (ustr ''LONDON'') Map.empty))
        (ustr ''report'')
      = Some (PStr (ustr ''The weather in London is cloudy with a temperature of 15''
                    @ [degree_sign, 67] @ ustr ''.''))"
proof -
  have log_newyork: "log_accepted utf8_runtime (ustr ''New York'') Map.empty"
    by (rule utf8_accepts_newyork) simp
  have log_london: "log_accepted utf8_runtime (ustr ''LONDON'') Map.empty"
    unfolding log_accepted_def Let_def shouting_london_entry weather_report_eq
    by (simp add: log_eval ascii_eval)
  from report_found [OF newyork_entry log_newyork] report_found [OF shouting_london_entry log_london]
    newyork_entry [of utf8_runtime] shouting_london_entry [of utf8_runtime]
  show ?thesis
    by (simp add: upper_first_def decimal_def digits.simps ascii_eval)
qed

text \<open>
  C2, amended. For every city found in the table the report is
  \<open>The weather in <capitalized city> is <condition> with a temperature of <value><unit>.\<close>,
  where the capitalized city is \<open>city.capitalize()\<close>. For a city of ASCII code points
  this is the input with its first code point upper-cased and every other code point
  lower-cased. The report is returned when standard output accepts the lines that the
  call logs.
\<close>

theorem report_capitalizes_city:
  assumes "mock_weather_db (normalized_key R city) = Some data"
    and "log_accepted R city st"
  shows "(\<exists>temperature.
            result_field (fst (get_weather_stateful R city st)) (ustr ''report'')
              = Some (PStr (ustr ''The weather in '' @ str_capitalize R city @ ustr '' is ''
                            @ condition data @ ustr '' with a temperature of ''
                            @ temperature @ ustr ''.'')))
         \<and> ((\<forall>c\<in>set city. is_ascii c) \<longrightarrow>
              str_capitalize R city
                = (case city of [] \<Rightarrow> [] | c # cs \<Rightarrow> ascii_upper c # map ascii_lower cs))"
  using report_found [OF assms] by (simp add: str_capitalize_ascii)

theorem report_capitalizes_city_witness:
  "mock_weather_db (normalized_key utf8_runtime (ustr ''New York''))
     = Some \<lparr>temp_c = 25, condition = ustr ''sunny''\<rparr>
   \<and> log_accepted utf8_runtime (ustr ''New York'') Map.empty
   \<and> (\<exists>temperature.
         result_field (fst (get_weather_stateful utf8_runtime (ustr ''New York'') Map.empty))
           (ustr ''report'')
         = Some (PStr (ustr ''The weather in New york is sunny with a temperature of ''
                       @ temperature @ ustr ''.'')))
   \<and> str_capitalize utf8_runtime (ustr ''New York'') = ustr ''New york''"
proof -
  have log_newyork: "log_accepted utf8_runtime (ustr ''New York'') Map.empty"
    by (rule utf8_accepts_newyork) simp
  have ascii: "\<forall>c\<in>set (ustr ''New York''). is_ascii c"
    by (simp add: ustr_def is_ascii_def)
  have shape: "(case ustr ''New York'' of [] \<Rightarrow> [] | c # cs \<Rightarrow> ascii_upper c # map ascii_lower cs)
                 = ustr ''New york''"
    by (simp add: ustr_def ascii_upper_def ascii_lower_def)
  note claim = report_capitalizes_city [OF newyork_entry log_newyork]
  from claim ascii shape
  have cap: "str_capitalize utf8_runtime (ustr ''New York'') = ustr ''New york''"
    by simp
  from claim obtain temperature where
    "result_field (fst (get_weather_stateful utf8_runtime (ustr ''New York'') Map.empty))
       (ustr ''report'')
     = Some (PStr (ustr ''The weather in '' @ str_capitalize utf8_runtime (ustr ''New York'')
                   @ ustr '' is '' @ ustr ''sunny'' @ ustr '' with a temperature of ''
                   @ temperature @ ustr ''.''))"
    by auto
  then have "result_field (fst (get_weather_stateful utf8_runtime (ustr ''New York'') Map.empty))
       (ustr ''report'')
     = Some (PStr (ustr ''The weather in New york is sunny with a temperature of ''
                   @ temperature @ ustr ''.''))"
    unfolding cap by (simp add: ustr_def)
  with newyork_entry [of utf8_runtime] log_newyork cap show ?thesis by blast
qed

text \<open>
  C3. For every city of the table: when the state holds \<open>Fahrenheit\<close> under
  \<open>user_preference_temperature_unit\<close>, the report shows \<open>temp_c * 9 / 5 + 32\<close> rounded to
  the nearest integer, followed by the degree sign and \<open>F\<close>; otherwise it shows \<open>temp_c\<close>,
  followed by the degree sign and \<open>C\<close>. With the preference \<open>Fahrenheit\<close>, the report
  for \<open>Tokyo\<close> shows 64 degrees Fahrenheit. The report is returned when standard output
  accepts the lines that the call logs.
\<close>

theorem temperature_follows_unit_preference:
  assumes "mock_weather_db (normalized_key R city) = Some data"
    and "log_accepted R city st"
  shows "(st (ustr ''user_preference_temperature_unit'') = Some (PStr (ustr ''Fahrenheit'')) \<longrightarrow>
            result_field (fst (get_weather_stateful R city st)) (ustr ''report'')
              = Some (PStr (ustr ''The weather in '' @ str_capitalize R city @ ustr '' is ''
                            @ condition data @ ustr '' with a temperature of ''
                            @ decimal (round (of_int (temp_c data) * 9 / 5 + 32 :: rat))
                            @ [degree_sign, 70] @ ustr ''.'')))
       \<and> (st (ustr ''user_preference_temperature_unit'') \<noteq> Some (PStr (ustr ''Fahrenheit'')) \<longrightarrow>
            result_field (fst (get_weather_stateful R city st)) (ustr ''report'')
              = Some (PStr (ustr ''The weather in '' @ str_capitalize R city @ ustr '' is ''
                            @ condition data @ ustr '' with a temperature of ''
                            @ decimal (temp_c data)
                            @ [degree_sign, 67] @ ustr ''.'')))
       \<and> (log_accepted R (ustr ''Tokyo'')
             (st(ustr ''user_preference_temperature_unit'' \<mapsto> PStr (ustr ''Fahrenheit''))) \<longrightarrow>
           result_field
            (fst (get_weather_stateful R (ustr ''Tokyo'')
                    (st(ustr ''user_preference_temperature_unit'' \<mapsto> PStr (ustr ''Fahrenheit'')))))
            (ustr ''report'')
           = Some (PStr (ustr ''The weather in Tokyo is light rain with a temperature of 64''
                         @ [degree_sign, 70] @ ustr ''.'')))"
proof -
  let ?st = "st(ustr ''user_preference_temperature_unit'' \<mapsto> PStr (ustr ''Fahrenheit''))"
  have "result_field (fst (get_weather_stateful R (ustr ''Tokyo'') ?st)) (ustr ''report'')
           = Some (PStr (ustr ''The weather in Tokyo is light rain with a temperature of 64''
                         @ [degree_sign, 70] @ ustr ''.''))"
    if "log_accepted R (ustr ''Tokyo'') ?st"
    using report_found [OF tokyo_entry that]
    by (simp add: round_def floor_rat_numeral decimal_def digits.simps ascii_eval)
  with report_found [OF assms] show ?thesis by simp
qed

theorem temperature_follows_unit_preference_witness:
  "mock_weather_db (normalized_key utf8_runtime (ustr ''London''))
     = Some \<lparr>temp_c = 15, condition = ustr ''cloudy''\<rparr>
   \<and> log_accepted utf8_runtime (ustr ''London'')
        [ustr ''user_preference_temperature_unit'' \<mapsto> PStr (ustr ''Fahrenheit'')]
   \<and> [ustr ''user_preference_temperature_unit'' \<mapsto> PStr (ustr ''Fahrenheit'')]
        (ustr ''user_preference_temperature_unit'') = Some (PStr (ustr ''Fahrenheit''))
   \<and> result_field
        (fst (get_weather_stateful utf8_runtime (ustr ''London'')
                [ustr ''user_preference_temperature_unit'' \<mapsto> PStr (ustr ''Fahrenheit'')]))
        (ustr ''report'')
       = Some (PStr (ustr ''The weather in London is cloudy with a temperature of 59''
                     @ [degree_sign, 70] @ ustr ''.''))
   \<and> log_accepted utf8_runtime (ustr ''London'') Map.empty
   \<and> Map.empty (ustr ''user_preference_temperature_unit'') \<noteq> Some (PStr (ustr ''Fahrenheit''))
   \<and> result_field (fst (get_weather_stateful utf8_runtime (ustr ''London'') Map.empty))
        (ustr ''report'')
       = Some (PStr (ustr ''The weather in London is cloudy with a temperature of 15''
                     @ [degree_sign, 67] @ ustr ''.''))"
proof -
  let ?st = "[ustr ''user_preference_temperature_unit'' \<mapsto> PStr (ustr ''Fahrenheit'')]"
  have log_f: "log_accepted utf8_runtime (ustr ''London'') ?st"
    by (rule utf8_accepts_london) simp
  have log_c: "log_accepted utf8_runtime (ustr ''London'') Map.empty"
    by (rule utf8_accepts_london) simp
  from temperature_follows_unit_preference [OF london_entry log_f]
    temperature_follows_unit_preference [OF london_entry log_c]
    london_entry [of utf8_runtime] log_f log_c
  show ?thesis
    by (simp add: round_def floor_rat_numeral decimal_def digits.simps ascii_eval)
qed

text \<open>
  C4. When the state has no key \<open>user_preference_temperature_unit\<close>, the tool returns
  what it returns with the preference \<open>Celsius\<close> stored, and it writes the same state
  apart from that key. In such a state the report for \<open>New York\<close>, returned when standard
  output accepts the lines that the call logs, is a success report that contains 25
  degrees Celsius.
\<close>

theorem absent_unit_means_celsius:
  assumes "st (ustr ''user_preference_temperature_unit'') = None"
  shows "fst (get_weather_stateful R city st)
           = fst (get_weather_stateful R city
                    (st(ustr ''user_preference_temperature_unit'' \<mapsto> PStr (ustr ''Celsius''))))
       \<and> snd (get_weather_stateful R city
                 (st(ustr ''user_preference_temperature_unit'' \<mapsto> PStr (ustr ''Celsius''))))
           = (snd (get_weather_stateful R city st))
               (ustr ''user_preference_temperature_unit'' \<mapsto> PStr (ustr ''Celsius''))
       \<and> (log_accepted R (ustr ''New York'') st \<longrightarrow>
           fst (get_weather_stateful R (ustr ''New York'') st)
           = Inr [ustr ''status'' \<mapsto> PStr (ustr ''success''),
                  ustr ''report'' \<mapsto> PStr
                    (ustr ''The weather in New york is sunny with a temperature of ''
                     @ (ustr ''25'' @ [degree_sign, 67]) @ ustr ''.'')])
       \<and> sublist (ustr ''25'' @ [degree_sign, 67])
            (ustr ''The weather in New york is sunny with a temperature of ''
             @ (ustr ''25'' @ [degree_sign, 67]) @ ustr ''.'')"
proof -
  let ?unit = "ustr ''user_preference_temperature_unit''"
  let ?st' = "st(?unit \<mapsto> PStr (ustr ''Celsius''))"
  from assms have "dict_get st ?unit (PStr (ustr ''Celsius''))
                     = dict_get ?st' ?unit (PStr (ustr ''Celsius''))"
    by (simp add: dict_get_def)
  from outcome_cong [OF this, of R city]
  have same: "fst (get_weather_stateful R city st) = fst (get_weather_stateful R city ?st')
      \<and> snd (get_weather_stateful R city ?st')
          = (snd (get_weather_stateful R city st))(?unit \<mapsto> PStr (ustr ''Celsius''))"
    by (auto simp add: fun_upd_twist)
  have newyork: "log_accepted R (ustr ''New York'') st \<longrightarrow>
           fst (get_weather_stateful R (ustr ''New York'') st)
           = Inr [ustr ''status'' \<mapsto> PStr (ustr ''success''),
                  ustr ''report'' \<mapsto> PStr
                    (ustr ''The weather in New york is sunny with a temperature of ''
                     @ (ustr ''25'' @ [degree_sign, 67]) @ ustr ''.'')]"
  proof
    assume accepted: "log_accepted R (ustr ''New York'') st"
    from assms found [OF newyork_entry accepted]
    show "fst (get_weather_stateful R (ustr ''New York'') st)
           = Inr [ustr ''status'' \<mapsto> PStr (ustr ''success''),
                  ustr ''report'' \<mapsto> PStr
                    (ustr ''The weather in New york is sunny with a temperature of ''
                     @ (ustr ''25'' @ [degree_sign, 67]) @ ustr ''.'')]"
      by (simp add: decimal_def digits.simps ascii_eval)
  qed
  from same newyork show ?thesis by (simp only: sublist_appendI simp_thms)
qed

theorem absent_unit_means_celsius_witness:
  "[ustr ''last_city_checked_stateful'' \<mapsto> PStr (ustr ''Paris'')]
       (ustr ''user_preference_temperature_unit'') = None
   \<and> log_accepted utf8_runtime (ustr ''New York'')
        [ustr ''last_city_checked_stateful'' \<mapsto> PStr (ustr ''Paris'')]
   \<and> fst (get_weather_stateful utf8_runtime (ustr ''New York'')
             [ustr ''last_city_checked_stateful'' \<mapsto> PStr (ustr ''Paris'')])
       = Inr [ustr ''status'' \<mapsto> PStr (ustr ''success''),
              ustr ''report'' \<mapsto> PStr
                (ustr ''The weather in New york is sunny with a temperature of ''
                 @ (ustr ''25'' @ [degree_sign, 67]) @ ustr ''.'')]
   \<and> fst (get_weather_stateful utf8_runtime (ustr ''New York'')
             [ustr ''last_city_checked_stateful'' \<mapsto> PStr (ustr ''Paris'')])
       = fst (get_weather_stateful utf8_runtime (ustr ''New York'')
             [ustr ''last_city_checked_stateful'' \<mapsto> PStr (ustr ''Paris''),
              ustr ''user_preference_temperature_unit'' \<mapsto> PStr (ustr ''Celsius'')])"
proof -
  let ?st = "[ustr ''last_city_checked_stateful'' \<mapsto> PStr (ustr ''Paris'')]"
  have absent: "?st (ustr ''user_preference_temperature_unit'') = None"
    by simp
  have log_newyork: "log_accepted utf8_runtime (ustr ''New York'') ?st"
    by (rule utf8_accepts_newyork) simp
  note claim = absent_unit_means_celsius [where R = utf8_runtime and city = "ustr ''New York''"
      and st = ?st, OF absent]
  from claim log_newyork
  have report: "fst (get_weather_stateful utf8_runtime (ustr ''New York'') ?st)
       = Inr [ustr ''status'' \<mapsto> PStr (ustr ''success''),
              ustr ''report'' \<mapsto> PStr
                (ustr ''The weather in New york is sunny with a temperature of ''
                 @ (ustr ''25'' @ [degree_sign, 67]) @ ustr ''.'')]"
    by (elim conjE impE)
  from claim have same: "fst (get_weather_stateful utf8_runtime (ustr ''New York'') ?st)
       = fst (get_weather_stateful utf8_runtime (ustr ''New York'')
             [ustr ''last_city_checked_stateful'' \<mapsto> PStr (ustr ''Paris''),
              ustr ''user_preference_temperature_unit'' \<mapsto> PStr (ustr ''Celsius'')])"
    by (elim conjE)
  from absent log_newyork report same show ?thesis by (intro conjI)
qed

text \<open>
  C5, as stated, fails. The claim promises one of the two dictionaries for every
  input. For a city that holds the lone surrogate U+D800 a UTF-8 stream refuses the
  first line of the log, \<open>print\<close> raises \<open>UnicodeEncodeError\<close>, and the call returns no
  dictionary at all.
\<close>

theorem result_shape_counterexample:
  "fst (get_weather_stateful utf8_runtime [55296]
          [ustr ''user_preference_temperature_unit'' \<mapsto> PStr (ustr ''Celsius'')])
     = Inl UnicodeEncodeError
   \<and> result_field
        (fst (get_weather_stateful utf8_runtime [55296]
                [ustr ''user_preference_temperature_unit'' \<mapsto> PStr (ustr ''Celsius'')]))
        (ustr ''status'') = None"
  by (simp add: refused [OF utf8_refuses_surrogate] result_field_def)

text \<open>
  C5, amended. Whenever standard output accepts the lines that the call logs, the
  result is a dictionary of exactly two fields: either \<open>status\<close> with the value
  \<open>success\<close> and a \<open>report\<close>, or \<open>status\<close> with the value \<open>error\<close> and an
  \<open>error_message\<close> that quotes the city as it was typed.
\<close>

theorem result_shape:
  assumes "log_accepted R city st"
  shows "(\<exists>report. fst (get_weather_stateful R city st)
            = Inr [ustr ''status'' \<mapsto> PStr (ustr ''success''),
                   ustr ''report'' \<mapsto> PStr report])
       \<or> fst (get_weather_stateful R city st)
            = Inr [ustr ''status'' \<mapsto> PStr (ustr ''error''),
                   ustr ''error_message'' \<mapsto> PStr
                     (ustr ''Sorry, I don't have weather information for ''
                      @ [apostrophe] @ city @ [apostrophe] @ ustr ''.'')]"
proof (cases "mock_weather_db (normalized_key R city)")
  case None
  then show ?thesis by (simp add: not_found [OF None assms])
next
  case (Some data)
  from found_some_report [OF Some assms] show ?thesis by auto
qed

theorem result_shape_witness:
  "log_accepted utf8_runtime (ustr ''Paris'')
      [ustr ''user_preference_temperature_unit'' \<mapsto> PStr (ustr ''Fahrenheit'')]
   \<and> fst (get_weather_stateful utf8_runtime (ustr ''Paris'')
            [ustr ''user_preference_temperature_unit'' \<mapsto> PStr (ustr ''Fahrenheit'')])
       = Inr [ustr ''status'' \<mapsto> PStr (ustr ''error''),
              ustr ''error_message'' \<mapsto> PStr
                (ustr ''Sorry, I don't have weather information for ''
                 @ [apostrophe] @ ustr ''Paris'' @ [apostrophe] @ ustr ''.'')]"
proof -
  let ?st = "[ustr ''user_preference_temperature_unit'' \<mapsto> PStr (ustr ''Fahrenheit'')]"
  have log_paris: "log_accepted utf8_runtime (ustr ''Paris'') ?st"
    by (rule utf8_accepts_paris) simp
  have "result_field (fst (get_weather_stateful utf8_runtime (ustr ''Paris'') ?st))
          (ustr ''status'') = Some (PStr (ustr ''error''))"
    by (rule status_not_found [OF paris_no_entry log_paris])
  with result_shape [OF log_paris]
  have "fst (get_weather_stateful utf8_runtime (ustr ''Paris'') ?st)
       = Inr [ustr ''status'' \<mapsto> PStr (ustr ''error''),
              ustr ''error_message'' \<mapsto> PStr
                (ustr ''Sorry, I don't have weather information for ''
                 @ [apostrophe] @ ustr ''Paris'' @ [apostrophe] @ ustr ''.'')]"
    by (auto simp add: result_field_def)
  with log_paris show ?thesis by (intro conjI)
qed

text \<open>
  C6. On the success path the state after the call is the state before it with the
  city, as typed, stored under \<open>last_city_checked_stateful\<close>: every other key, the unit
  preference among them, keeps its value.
\<close>

theorem success_writes_last_city_only:
  assumes "result_field (fst (get_weather_stateful R city st)) (ustr ''status'')
             = Some (PStr (ustr ''success''))"
  shows "snd (get_weather_stateful R city st)
           = st(ustr ''last_city_checked_stateful'' \<mapsto> PStr city)
       \<and> (\<forall>key. key \<noteq> ustr ''last_city_checked_stateful'' \<longrightarrow>
                snd (get_weather_stateful R city st) key = st key)
       \<and> snd (get_weather_stateful R city st) (ustr ''user_preference_temperature_unit'')
           = st (ustr ''user_preference_temperature_unit'')"
proof -
  from assms status_refused [of R city st "ustr ''status''"]
  have accepted: "log_accepted R city st" by auto
  show ?thesis
  proof (cases "mock_weather_db (normalized_key R city)")
    case None
    from assms status_not_found [OF None accepted] show ?thesis by simp
  next
    case (Some data)
    then show ?thesis by (simp add: found [OF Some accepted])
  qed
qed

theorem success_writes_last_city_only_witness:
  "result_field
       (fst (get_weather_stateful utf8_runtime (ustr ''London'')
               [ustr ''user_preference_temperature_unit'' \<mapsto> PStr (ustr ''Fahrenheit''),
                ustr ''last_city_checked_stateful'' \<mapsto> PStr (ustr ''Tokyo'')]))
       (ustr ''status'') = Some (PStr (ustr ''success''))
   \<and> snd (get_weather_stateful utf8_runtime (ustr ''London'')
               [ustr ''user_preference_temperature_unit'' \<mapsto> PStr (ustr ''Fahrenheit''),
                ustr ''last_city_checked_stateful'' \<mapsto> PStr (ustr ''Tokyo'')])
       = [ustr ''user_preference_temperature_unit'' \<mapsto> PStr (ustr ''Fahrenheit''),
          ustr ''last_city_checked_stateful'' \<mapsto> PStr (ustr ''London'')]
   \<and> ustr ''user_preference_temperature_unit'' \<noteq> ustr ''last_city_checked_stateful''
   \<and> snd (get_weather_stateful utf8_runtime (ustr ''London'')
               [ustr ''user_preference_temperature_unit'' \<mapsto> PStr (ustr ''Fahrenheit''),
                ustr ''last_city_checked_stateful'' \<mapsto> PStr (ustr ''Tokyo'')])
         (ustr ''user_preference_temperature_unit'') = Some (PStr (ustr ''Fahrenheit''))"
proof -
  let ?st = "[ustr ''user_preference_temperature_unit'' \<mapsto> PStr (ustr ''Fahrenheit''),
              ustr ''last_city_checked_stateful'' \<mapsto> PStr (ustr ''Tokyo'')]"
  have "log_accepted utf8_runtime (ustr ''London'') ?st"
    by (rule utf8_accepts_london) simp
  then have ok: "result_field (fst (get_weather_stateful utf8_runtime (ustr ''London'') ?st))
              (ustr ''status'') = Some (PStr (ustr ''success''))"
    by (rule status_found [OF london_entry])
  from ok success_writes_last_city_only [OF ok] show ?thesis by simp
qed










end
